theory Spec2Isabelle
  imports Main "HOL-Library.Word"
begin

section \<open>The notepad client of src/providers.ts\<close>

text \<open>
  The module is an event-driven browser program: module-level variables, a page of DOM
  elements, event listeners, and promises that the environment settles later. The model
  keeps all of it in one record \<open>app\<close>; every function of the source is a function from
  \<open>app\<close> to \<open>app\<close>; what the program does to the outside (network requests, alerts,
  console output, calls to the wallet, uncaught exceptions) is appended to the trace
  \<open>effects\<close>; every promise that is waited for is an entry of \<open>pending\<close> that names its
  continuation, and the environment settles it with the event \<open>Settle\<close>.
\<close>

subsection \<open>JavaScript strings, JSON.stringify and Buffer.byteLength\<close>

text \<open>A JavaScript string is a sequence of UTF-16 code units.\<close>

type_synonym jsstring = "16 word list"

definition js :: "string \<Rightarrow> jsstring" where
  "js cs = map of_char cs"

definition is_leading_surrogate :: "16 word \<Rightarrow> bool" where
  "is_leading_surrogate c = (0xD800 \<le> c \<and> c \<le> 0xDBFF)"

definition is_trailing_surrogate :: "16 word \<Rightarrow> bool" where
  "is_trailing_surrogate c = (0xDC00 \<le> c \<and> c \<le> 0xDFFF)"

definition hex_digit :: "nat \<Rightarrow> 16 word" where
  "hex_digit n = (if n < 10 then 0x30 + of_nat n else 0x61 + of_nat (n - 10))"

text \<open>ECMAScript UnicodeEscape: a backslash, the letter u and four lowercase hex digits.\<close>

definition UnicodeEscape :: "16 word \<Rightarrow> jsstring" where
  "UnicodeEscape c =
     [0x5C, 0x75,
      hex_digit (unat c div 4096), hex_digit (unat c div 256 mod 16),
      hex_digit (unat c div 16 mod 16), hex_digit (unat c mod 16)]"

text \<open>
  ECMAScript QuoteJSONString (ES2019, well-formed JSON.stringify) without the two
  enclosing quotes: the seven characters of the escape table get their two-character
  escape, other control characters and lone surrogates a UnicodeEscape, a surrogate pair
  and every other code unit stay as they are.
\<close>

fun quote_chars :: "jsstring \<Rightarrow> jsstring" where
  "quote_chars [] = []"
| "quote_chars (c # cs) =
     (if c = 0x08 then [0x5C, 0x62] @ quote_chars cs
      else if c = 0x09 then [0x5C, 0x74] @ quote_chars cs
      else if c = 0x0A then [0x5C, 0x6E] @ quote_chars cs
      else if c = 0x0C then [0x5C, 0x66] @ quote_chars cs
      else if c = 0x0D then [0x5C, 0x72] @ quote_chars cs
      else if c = 0x22 then [0x5C, 0x22] @ quote_chars cs
      else if c = 0x5C then [0x5C, 0x5C] @ quote_chars cs
      else if c < 0x20 then UnicodeEscape c @ quote_chars cs
      else if is_leading_surrogate c then
        (case cs of
           [] \<Rightarrow> UnicodeEscape c
         | d # ds \<Rightarrow>
             if is_trailing_surrogate d then c # d # quote_chars ds
             else UnicodeEscape c @ quote_chars cs)
      else if is_trailing_surrogate c then UnicodeEscape c @ quote_chars cs
      else c # quote_chars cs)"

definition QuoteJSONString :: "jsstring \<Rightarrow> jsstring" where
  "QuoteJSONString v = [0x22] @ quote_chars v @ [0x22]"

text \<open>\<open>JSON.stringify({ text })\<close> for a string \<open>text\<close>: the object with the one key \<open>text\<close>.\<close>

definition JSON_stringify_text :: "jsstring \<Rightarrow> jsstring" where
  "JSON_stringify_text v = js ''{'' @ QuoteJSONString (js ''text'') @ js '':'' @ QuoteJSONString v @ js ''}''"

text \<open>
  \<open>Buffer.byteLength(s)\<close> with the default encoding: the length of the UTF-8 encoding
  of \<open>s\<close>. A code unit below 0x80 is one byte, below 0x800 two bytes, a surrogate pair
  four bytes, everything else (a lone surrogate is encoded as U+FFFD) three bytes.
\<close>

fun Buffer_byteLength :: "jsstring \<Rightarrow> nat" where
  "Buffer_byteLength [] = 0"
| "Buffer_byteLength (c # cs) =
     (if c < 0x80 then 1 + Buffer_byteLength cs
      else if c < 0x800 then 2 + Buffer_byteLength cs
      else if is_leading_surrogate c then
        (case cs of
           [] \<Rightarrow> 3
         | d # ds \<Rightarrow>
             if is_trailing_surrogate d then 4 + Buffer_byteLength ds
             else 3 + Buffer_byteLength cs)
      else 3 + Buffer_byteLength cs)"

text \<open>
  The value that a text area reads back is the string it holds with every line break
  written as LF: CRLF and a CR without LF become LF.
\<close>

fun normalize_newlines :: "jsstring \<Rightarrow> jsstring" where
  "normalize_newlines [] = []"
| "normalize_newlines (c # cs) =
     (if c = 0x0D then
        (case cs of
           [] \<Rightarrow> [0x0A]
         | d # ds \<Rightarrow>
             if d = 0x0A then 0x0A # normalize_newlines ds
             else 0x0A # normalize_newlines cs)
      else c # normalize_newlines cs)"

subsection \<open>Values, the wallet and the network\<close>

text \<open>
  The only place where the source compares values of different JavaScript types is
  \<open>typeof metamask === undefined\<close>: \<open>typeof\<close> yields a string, \<open>undefined\<close> is the
  undefined value, and \<open>===\<close> holds only between equal values of one type.
\<close>

datatype jsval = JS_undefined | JS_string jsstring

datatype ethereum = Ethereum nat

definition typeof :: "ethereum option \<Rightarrow> jsval" where
  "typeof v = JS_string (case v of None \<Rightarrow> js ''undefined'' | Some _ \<Rightarrow> js ''object'')"

definition strict_equals :: "jsval \<Rightarrow> jsval \<Rightarrow> bool" where
  "strict_equals a b = (a = b)"

text \<open>\<open>a ?? b\<close>, with \<open>None\<close> for the nullish values \<open>null\<close> and \<open>undefined\<close>.\<close>

definition nullish_coalesce :: "'a option \<Rightarrow> 'a \<Rightarrow> 'a" where
  "nullish_coalesce a b = (case a of None \<Rightarrow> b | Some v \<Rightarrow> v)"

datatype Providers = METAMASK | WALLET_CONNECT

datatype provider = Web3Provider ethereum | SignerProvider nat

datatype signer = Signer "provider option"

record SiweMessage =
  domain :: jsstring
  address :: jsstring
  chainId :: nat
  uri :: jsstring
  version :: jsstring
  statement :: jsstring
  nonce :: jsstring

text \<open>
  \<open>message.prepareMessage()\<close> is the serializer of the siwe library, which is not part
  of this repository: the text it returns for a message is kept as a term.
\<close>

datatype siwe_text = prepareMessage SiweMessage

datatype verb = GET | POST | PUT

text \<open>
  A request body: \<open>Body_text b\<close> is the string \<open>b\<close> as it is sent;
  \<open>Body_sign_in message ens signature\<close> stands for
  \<open>JSON.stringify({ message, ens, signature })\<close>.
\<close>

datatype body = Body_text jsstring | Body_sign_in SiweMessage jsstring jsstring

record request =
  url :: jsstring
  verb_of :: verb
  credentials_include :: bool
  content_type_json :: bool
  body_of :: "body option"

text \<open>
  The JSON object \<open>{text, address, ens}\<close> of \<open>/api/me\<close> and \<open>/api/sign_in\<close>; \<open>None\<close> is
  a field that is \<open>null\<close> or absent.
\<close>

datatype user = User "jsstring option" jsstring "jsstring option"

datatype error = TypeError | Error jsstring | SiweError | Rejection

subsection \<open>Promises and effects\<close>

text \<open>
  A pending promise names the continuation that runs when it is fulfilled, with the
  local variables the continuation reads.
\<close>

datatype task =
    T_me_fetch
  | T_me_json
  | T_requestAccounts ethereum
  | T_listAccounts provider
  | T_lookupAddress provider jsstring
  | T_nonce_fetch provider jsstring jsstring
  | T_nonce_text provider jsstring jsstring
  | T_getNetwork provider jsstring jsstring jsstring jsstring
  | T_signMessage SiweMessage jsstring
  | T_sign_in_fetch
  | T_sign_in_json_ok
  | T_sign_in_json_err
  | T_sign_out_fetch
  | T_save_fetch

text \<open>
  How the environment settles a promise. \<open>fetch\<close> is fulfilled by a response of any
  status and rejected by a transport error.
\<close>

datatype settlement =
    Rejected
  | R_void
  | R_accounts "jsstring list"
  | R_name "jsstring option"
  | R_response nat
  | R_text jsstring
  | R_user user
  | R_error_body jsstring
  | R_network nat
  | R_signature jsstring

datatype effect =
    E_fetch request
  | E_alert jsstring
  | E_console_log
  | E_console_error
  | E_preventDefault
  | E_openModal
  | E_eth_requestAccounts ethereum
  | E_listAccounts provider
  | E_lookupAddress provider jsstring
  | E_getNetwork provider
  | E_signMessage provider siwe_text
  | E_uncaught error

subsection \<open>The state\<close>

datatype element =
    metamaskButton | walletConnectButton | toggleSize | closeButton
  | disconnectButton | saveButton | notepad_elem | unsaved

datatype event_type = click | input

text \<open>
  The functions that the source registers as listeners. \<open>H_connect c\<close> is the arrow
  function \<open>() => connect(c)\<close>, \<open>H_hotkey\<close> the arrow function \<open>(e) => { save(e); }\<close>.
\<close>

datatype handler =
    H_maximize | H_restore | H_signOut | H_connect Providers
  | H_save | H_enableSave | H_hotkey

text \<open>
  \<open>hidden e\<close>: the class list of \<open>e\<close> has \<open>hidden\<close>; \<open>disabled e\<close>: \<open>e\<close> has the attribute
  \<open>disabled\<close>; \<open>title_innerText\<close> is \<open>None\<close> when the page has no element \<open>title\<close>
  (\<open>updateTitle\<close> tests for it); \<open>onbeforeunload\<close> holds the string that the installed
  handler returns; \<open>handles_bound\<close>: the DOMContentLoaded handler has assigned the
  element variables (\<open>notepad\<close>, \<open>saveButton\<close>, ...), which are \<open>undefined\<close> before;
  \<open>notepad_value\<close> is the value that \<open>notepad.value\<close> reads.

  \<open>new SiweMessage({...})\<close> is the constructor of the siwe library, which is not part of
  this repository: it is a parameter of the page. \<open>SiweMessage_new s k params\<close> is what
  the call number \<open>k\<close> of the constructor does with the parameters \<open>params\<close>: it throws,
  or it returns the message object (the library validates the fields, and it may fill
  or replace some: a missing nonce by a random one). \<open>SiweMessage_calls\<close> counts the calls.
\<close>

record app =
  metamask :: "ethereum option"
  location_host :: jsstring
  location_origin :: jsstring
  wagmiProvider :: "provider option"
  handles_bound :: bool
  hidden :: "element \<Rightarrow> bool"
  disabled :: "element \<Rightarrow> bool"
  listeners :: "element \<times> event_type \<Rightarrow> handler list"
  mousetrap_mod_s :: "handler list"
  notepad_value :: jsstring
  notepad_width :: jsstring
  notepad_height :: jsstring
  toggleSize_ariaLabel :: jsstring
  unsaved_innerText :: jsstring
  title_innerText :: "jsstring option"
  onbeforeunload :: "jsstring option"
  SiweMessage_new :: "nat \<Rightarrow> SiweMessage \<Rightarrow> error + SiweMessage"
  SiweMessage_calls :: nat
  pending :: "task list"
  effects :: "effect list"

definition emit :: "effect \<Rightarrow> app \<Rightarrow> app" where
  "emit e s = s\<lparr>effects := effects s @ [e]\<rparr>"

definition throw :: "error \<Rightarrow> app \<Rightarrow> app" where
  "throw err s = emit (E_uncaught err) s"

definition await :: "task \<Rightarrow> app \<Rightarrow> app" where
  "await t s = s\<lparr>pending := pending s @ [t]\<rparr>"

definition fetch :: "request \<Rightarrow> task \<Rightarrow> app \<Rightarrow> app" where
  "fetch req t s = await t (emit (E_fetch req) s)"

definition classList_add_hidden :: "element \<Rightarrow> app \<Rightarrow> app" where
  "classList_add_hidden e s = s\<lparr>hidden := (hidden s)(e := True)\<rparr>"

definition classList_remove_hidden :: "element \<Rightarrow> app \<Rightarrow> app" where
  "classList_remove_hidden e s = s\<lparr>hidden := (hidden s)(e := False)\<rparr>"

definition setAttribute_disabled :: "element \<Rightarrow> app \<Rightarrow> app" where
  "setAttribute_disabled e s = s\<lparr>disabled := (disabled s)(e := True)\<rparr>"

definition removeAttribute_disabled :: "element \<Rightarrow> app \<Rightarrow> app" where
  "removeAttribute_disabled e s = s\<lparr>disabled := (disabled s)(e := False)\<rparr>"

text \<open>A listener that is registered already is not registered twice.\<close>

definition add_listener :: "handler \<Rightarrow> handler list \<Rightarrow> handler list" where
  "add_listener h hs = (if h \<in> set hs then hs else hs @ [h])"

definition addEventListener :: "element \<Rightarrow> event_type \<Rightarrow> handler \<Rightarrow> app \<Rightarrow> app" where
  "addEventListener e ty h s =
     s\<lparr>listeners := (listeners s)((e, ty) := add_listener h (listeners s (e, ty)))\<rparr>"

definition removeEventListener :: "element \<Rightarrow> event_type \<Rightarrow> handler \<Rightarrow> app \<Rightarrow> app" where
  "removeEventListener e ty h s =
     s\<lparr>listeners := (listeners s)((e, ty) := removeAll h (listeners s (e, ty)))\<rparr>"

subsection \<open>The helper functions that manage the page\<close>

text \<open>
  \<open>updateTitle\<close> looks the element up itself and does nothing when there is none. Every
  other function reaches the page through the element variables: while these are
  \<open>undefined\<close> its first access throws a TypeError and the rest of the function does
  not run. An assignment to \<open>notepad.value\<close> is kept as the value that is read back, with
  its line breaks normalised.
\<close>

definition updateTitle :: "jsstring \<Rightarrow> app \<Rightarrow> app" where
  "updateTitle t s =
     (case title_innerText s of None \<Rightarrow> s | Some _ \<Rightarrow> s\<lparr>title_innerText := Some t\<rparr>)"

definition updateUnsavedChanges :: "jsstring \<Rightarrow> app \<Rightarrow> app" where
  "updateUnsavedChanges t s = s\<lparr>unsaved_innerText := t\<rparr>"

definition updateNotepad :: "jsstring \<Rightarrow> app \<Rightarrow> app" where
  "updateNotepad t s = s\<lparr>notepad_value := normalize_newlines t\<rparr>"

definition maximize :: "app \<Rightarrow> app" where
  "maximize s =
     (if \<not> handles_bound s then throw TypeError s
      else
        let s1 = removeEventListener toggleSize click H_maximize s;
            s2 = addEventListener toggleSize click H_restore s1
        in s2\<lparr>toggleSize_ariaLabel := js ''Restore'',
               notepad_width := js ''99.7vw'', notepad_height := js ''91.7vh''\<rparr>)"

definition restore :: "app \<Rightarrow> app" where
  "restore s =
     (if \<not> handles_bound s then throw TypeError s
      else
        let s1 = removeEventListener toggleSize click H_restore s;
            s2 = addEventListener toggleSize click H_maximize s1
        in s2\<lparr>toggleSize_ariaLabel := js ''Maximize'',
               notepad_width := js ''460px'', notepad_height := js ''320px''\<rparr>)"

definition blockSave :: "app \<Rightarrow> app" where
  "blockSave s =
     (if \<not> handles_bound s then throw TypeError s
      else
        let s1 = removeEventListener saveButton click H_save s;
            s2 = setAttribute_disabled saveButton s1;
            s3 = updateUnsavedChanges [] s2
        in s3\<lparr>onbeforeunload := None\<rparr>)"

definition enableSave :: "app \<Rightarrow> app" where
  "enableSave s =
     (if \<not> handles_bound s then throw TypeError s
      else
        let s1 = addEventListener saveButton click H_save s;
            s2 = removeAttribute_disabled saveButton s1;
            s3 = updateUnsavedChanges (js ''- (***Unsaved Changes***)'') s2
        in s3\<lparr>onbeforeunload := Some (js ''(***Unsaved Changes***)'')\<rparr>)"

text \<open>\<open>if (text)\<close>: a string is truthy when it is not empty, a nullish value never.\<close>

definition connectedState :: "jsstring option \<Rightarrow> jsstring \<Rightarrow> jsstring option \<Rightarrow> app \<Rightarrow> app" where
  "connectedState txt addr ens s =
     (if \<not> handles_bound s then throw TypeError s
      else
        let s1 = classList_add_hidden metamaskButton s;
            s2 = classList_add_hidden walletConnectButton s1;
            s3 = addEventListener closeButton click H_signOut s2;
            s4 = removeAttribute_disabled closeButton s3;
            s5 = classList_remove_hidden saveButton s4;
            s6 = classList_remove_hidden disconnectButton s5;
            s7 = (case txt of
                    None \<Rightarrow> s6
                  | Some t \<Rightarrow> if t \<noteq> [] then updateNotepad t s6 else s6);
            s8 = blockSave s7
        in updateTitle (nullish_coalesce ens addr) s8)"

definition disconnectedState :: "app \<Rightarrow> app" where
  "disconnectedState s =
     (if \<not> handles_bound s then throw TypeError s
      else
        let s1 = (if \<not> strict_equals (typeof (metamask s)) JS_undefined
                  then classList_remove_hidden metamaskButton s else s);
            s2 = classList_remove_hidden walletConnectButton s1;
            s3 = removeEventListener closeButton click H_signOut s2;
            s4 = setAttribute_disabled closeButton s3;
            s5 = classList_add_hidden saveButton s4
        in classList_add_hidden disconnectButton s5)"

subsection \<open>Saving and signing out\<close>

definition save_request :: "jsstring \<Rightarrow> request" where
  "save_request txt =
     \<lparr>url = js ''/api/save'', verb_of = PUT, credentials_include = True,
      content_type_json = True, body_of = Some (Body_text (JSON_stringify_text txt))\<rparr>"

definition save :: "app \<Rightarrow> app" where
  "save s =
     (let s1 = emit E_preventDefault s in
      if \<not> handles_bound s1 then throw TypeError s1
      else
        let txt = notepad_value s1 in
        if Buffer_byteLength (JSON_stringify_text txt) > 43610
        then emit (E_alert (js ''Your message is too big.'')) s1
        else fetch (save_request txt) T_save_fetch s1)"

definition sign_out_request :: request where
  "sign_out_request =
     \<lparr>url = js ''/api/sign_out'', verb_of = POST, credentials_include = True,
      content_type_json = False, body_of = None\<rparr>"

definition signOut :: "app \<Rightarrow> app" where
  "signOut s =
     (let s1 = updateTitle (js ''Untitled'') s in
      if \<not> handles_bound s1 then throw TypeError s1
      else
        let s2 = updateNotepad [] s1
        in fetch sign_out_request T_sign_out_fetch s2)"

subsection \<open>Connecting and signing in\<close>

text \<open>
  \<open>signIn\<close> is an async function: it runs up to its first \<open>await\<close>, and each later part
  runs when the awaited promise is settled. The parts are \<open>signIn\<close>, \<open>signIn_accounts\<close>,
  \<open>signIn_ens\<close> and the branches of \<open>continue\<close> below.
\<close>

definition signIn :: "provider \<Rightarrow> app \<Rightarrow> app" where
  "signIn p s = await (T_listAccounts p) (emit (E_listAccounts p) s)"

definition signIn_accounts :: "provider \<Rightarrow> jsstring list \<Rightarrow> app \<Rightarrow> app" where
  "signIn_accounts p accounts s =
     (case accounts of
        [] \<Rightarrow> throw (Error (js ''Address not found.'')) s
      | addr # _ \<Rightarrow>
          if addr = [] then throw (Error (js ''Address not found.'')) s
          else await (T_lookupAddress p addr) (emit (E_lookupAddress p addr) s))"

definition nonce_request :: request where
  "nonce_request =
     \<lparr>url = js ''/api/nonce'', verb_of = GET, credentials_include = True,
      content_type_json = False, body_of = None\<rparr>"

definition signIn_ens :: "provider \<Rightarrow> jsstring \<Rightarrow> jsstring \<Rightarrow> app \<Rightarrow> app" where
  "signIn_ens p addr ens s =
     (let s1 = updateTitle (nullish_coalesce (Some ens) addr) s
      in fetch nonce_request (T_nonce_fetch p addr ens) s1)"

definition sign_in_request :: "SiweMessage \<Rightarrow> jsstring \<Rightarrow> jsstring \<Rightarrow> request" where
  "sign_in_request message ens signature =
     \<lparr>url = js ''/api/sign_in'', verb_of = POST, credentials_include = True,
      content_type_json = True, body_of = Some (Body_sign_in message ens signature)\<rparr>"

definition connect :: "Providers \<Rightarrow> app \<Rightarrow> app" where
  "connect connector s =
     (case metamask s of
        Some m \<Rightarrow>
          if connector = METAMASK
          then await (T_requestAccounts m) (emit (E_eth_requestAccounts m) s)
          else emit E_openModal s
      | None \<Rightarrow> emit E_openModal s)"

definition watchSigner_callback :: "signer option \<Rightarrow> app \<Rightarrow> app" where
  "watchSigner_callback sg s =
     (let s1 = emit E_console_log s in
      case sg of
        Some (Signer (Some p)) \<Rightarrow> signIn p (s1\<lparr>wagmiProvider := Some p\<rparr>)
      | _ \<Rightarrow> s1\<lparr>wagmiProvider := None\<rparr>)"

text \<open>
  \<open>continue t r s\<close> runs the continuation of the pending promise \<open>t\<close> that the environment
  settled with \<open>r\<close>; \<open>None\<close> when \<open>r\<close> is not a value that \<open>t\<close> can be settled with. The one
  rejection that the source catches is that of \<open>lookupAddress\<close>; every other rejected
  promise rejects its chain, which nothing handles, and so does the constructor of the
  message when it throws: then \<open>signIn\<close> ends without a request for a signature.
\<close>

definition continue :: "task \<Rightarrow> settlement \<Rightarrow> app \<Rightarrow> app option" where
  "continue t r s =
     (case t of
        T_me_fetch \<Rightarrow>
          (case r of
             R_response st \<Rightarrow> Some (if st = 200 then await T_me_json s else disconnectedState s)
           | Rejected \<Rightarrow> Some (throw Rejection s)
           | _ \<Rightarrow> None)
      | T_me_json \<Rightarrow>
          (case r of
             R_user (User txt addr ens) \<Rightarrow> Some (connectedState txt addr ens s)
           | Rejected \<Rightarrow> Some (throw Rejection s)
           | _ \<Rightarrow> None)
      | T_requestAccounts m \<Rightarrow>
          (case r of
             R_void \<Rightarrow> Some (signIn (Web3Provider m) (s\<lparr>wagmiProvider := Some (Web3Provider m)\<rparr>))
           | Rejected \<Rightarrow> Some (throw Rejection s)
           | _ \<Rightarrow> None)
      | T_listAccounts p \<Rightarrow>
          (case r of
             R_accounts accounts \<Rightarrow> Some (signIn_accounts p accounts s)
           | Rejected \<Rightarrow> Some (throw Rejection s)
           | _ \<Rightarrow> None)
      | T_lookupAddress p addr \<Rightarrow>
          (case r of
             R_name n \<Rightarrow> Some (signIn_ens p addr (nullish_coalesce n []) s)
           | Rejected \<Rightarrow> Some (signIn_ens p addr [] (emit E_console_error s))
           | _ \<Rightarrow> None)
      | T_nonce_fetch p addr ens \<Rightarrow>
          (case r of
             R_response st \<Rightarrow> Some (await (T_nonce_text p addr ens) s)
           | Rejected \<Rightarrow> Some (throw Rejection s)
           | _ \<Rightarrow> None)
      | T_nonce_text p addr ens \<Rightarrow>
          (case r of
             R_text n \<Rightarrow>
               Some (await (T_getNetwork p addr ens n (location_host s)) (emit (E_getNetwork p) s))
           | Rejected \<Rightarrow> Some (throw Rejection s)
           | _ \<Rightarrow> None)
      | T_getNetwork p addr ens n host \<Rightarrow>
          (case r of
             R_network cid \<Rightarrow>
               (let params =
                  \<lparr>domain = host, address = addr, chainId = cid, uri = location_origin s,
                   version = js ''1'', statement = js ''SIWE Notepad Example'', nonce = n\<rparr>;
                    s1 = s\<lparr>SiweMessage_calls := Suc (SiweMessage_calls s)\<rparr>
                in case SiweMessage_new s (SiweMessage_calls s) params of
                     Inl err \<Rightarrow> Some (throw err s1)
                   | Inr message \<Rightarrow>
                       Some (await (T_signMessage message ens)
                              (emit (E_signMessage p (prepareMessage message)) s1)))
           | Rejected \<Rightarrow> Some (throw Rejection s)
           | _ \<Rightarrow> None)
      | T_signMessage message ens \<Rightarrow>
          (case r of
             R_signature sg \<Rightarrow> Some (fetch (sign_in_request message ens sg) T_sign_in_fetch s)
           | Rejected \<Rightarrow> Some (throw Rejection s)
           | _ \<Rightarrow> None)
      | T_sign_in_fetch \<Rightarrow>
          (case r of
             R_response st \<Rightarrow>
               Some (if st = 200 then await T_sign_in_json_ok s else await T_sign_in_json_err s)
           | Rejected \<Rightarrow> Some (throw Rejection s)
           | _ \<Rightarrow> None)
      | T_sign_in_json_ok \<Rightarrow>
          (case r of
             R_user (User txt addr ens) \<Rightarrow> Some (connectedState txt addr ens s)
           | Rejected \<Rightarrow> Some (throw Rejection s)
           | _ \<Rightarrow> None)
      | T_sign_in_json_err \<Rightarrow>
          (case r of
             R_error_body e \<Rightarrow> Some (emit E_console_error s)
           | Rejected \<Rightarrow> Some (throw Rejection s)
           | _ \<Rightarrow> None)
      | T_sign_out_fetch \<Rightarrow>
          (case r of
             R_response st \<Rightarrow> Some (disconnectedState s)
           | Rejected \<Rightarrow> Some (throw Rejection s)
           | _ \<Rightarrow> None)
      | T_save_fetch \<Rightarrow>
          (case r of
             R_response st \<Rightarrow> Some (blockSave s)
           | Rejected \<Rightarrow> Some (throw Rejection s)
           | _ \<Rightarrow> None))"

subsection \<open>Loading the module and the page\<close>

definition me_request :: request where
  "me_request =
     \<lparr>url = js ''/api/me'', verb_of = GET, credentials_include = True,
      content_type_json = False, body_of = None\<rparr>"

text \<open>
  What runs when the module is loaded: \<open>watchSigner\<close> and \<open>Mousetrap.bind\<close> register
  their callbacks, \<open>wagmiProvider\<close> is declared without a value. The argument is the
  page as the browser built it (classes, attributes, texts, \<open>window.ethereum\<close>, the
  location); no listener is registered on it and no promise is pending.
\<close>

definition module_load :: "app \<Rightarrow> app" where
  "module_load page =
     page\<lparr>wagmiProvider := None, handles_bound := False, listeners := (\<lambda>_. []),
          mousetrap_mod_s := [H_hotkey], onbeforeunload := None, SiweMessage_calls := 0,
          pending := [], effects := []\<rparr>"

definition on_DOMContentLoaded :: "app \<Rightarrow> app" where
  "on_DOMContentLoaded s =
     (let s1 = fetch me_request T_me_fetch s;
          s2 = s1\<lparr>handles_bound := True\<rparr>;
          s3 = (if strict_equals (typeof (metamask s2)) JS_undefined
                then classList_add_hidden metamaskButton s2 else s2);
          s4 = addEventListener toggleSize click H_maximize s3;
          s5 = addEventListener disconnectButton click H_signOut s4;
          s6 = addEventListener metamaskButton click (H_connect METAMASK) s5;
          s7 = addEventListener walletConnectButton click (H_connect WALLET_CONNECT) s6;
          s8 = addEventListener saveButton click H_save s7
      in addEventListener notepad_elem input H_enableSave s8)"

subsection \<open>Events\<close>

fun run_handler :: "handler \<Rightarrow> app \<Rightarrow> app" where
  "run_handler H_maximize s = maximize s"
| "run_handler H_restore s = restore s"
| "run_handler H_signOut s = signOut s"
| "run_handler (H_connect c) s = connect c s"
| "run_handler H_save s = save s"
| "run_handler H_enableSave s = enableSave s"
| "run_handler H_hotkey s = save s"

text \<open>
  Dispatching an event runs the listeners that were registered when the dispatch began,
  in their order, except those that an earlier listener has removed.
\<close>

definition dispatch :: "element \<Rightarrow> event_type \<Rightarrow> app \<Rightarrow> app" where
  "dispatch e ty s =
     foldl (\<lambda>s' h. if h \<in> set (listeners s' (e, ty)) then run_handler h s' else s')
       s (listeners s (e, ty))"

text \<open>The elements that the source declares as \<open>HTMLButtonElement\<close>: disabled, they get no click.\<close>

definition is_button :: "element \<Rightarrow> bool" where
  "is_button e = (e = metamaskButton \<or> e = walletConnectButton \<or> e = toggleSize \<or> e = closeButton)"

text \<open>
  What the environment does: the page finishes loading (once), the user clicks an
  element, edits the text (the text area holds the new string when the input event
  fires), presses the hotkey, the wallet reports a new signer or none, a pending promise
  is settled.
\<close>

datatype event =
    DOMContentLoaded
  | Click element
  | Input jsstring
  | Hotkey
  | SignerChange "signer option"
  | Settle nat settlement

fun step :: "app \<Rightarrow> event \<Rightarrow> app" where
  "step s DOMContentLoaded = (if handles_bound s then s else on_DOMContentLoaded s)"
| "step s (Click e) = (if is_button e \<and> disabled s e then s else dispatch e click s)"
| "step s (Input t) = dispatch notepad_elem input (s\<lparr>notepad_value := normalize_newlines t\<rparr>)"
| "step s Hotkey = foldl (\<lambda>s' h. run_handler h s') s (mousetrap_mod_s s)"
| "step s (SignerChange sg) = watchSigner_callback sg s"
| "step s (Settle i r) =
     (if i < length (pending s) then
        (case continue (pending s ! i) r (s\<lparr>pending := take i (pending s) @ drop (Suc i) (pending s)\<rparr>) of
           None \<Rightarrow> s
         | Some s' \<Rightarrow> s')
      else s)"

definition run :: "app \<Rightarrow> event list \<Rightarrow> app" where
  "run s evs = foldl step s evs"

subsection \<open>What the page shows\<close>

text \<open>
  The dirty state of the document: the unsaved-changes indicator has a text and the
  unload guard is installed.
\<close>

definition dirty :: "app \<Rightarrow> bool" where
  "dirty s = (unsaved_innerText s \<noteq> [] \<and> onbeforeunload s \<noteq> None)"

text \<open>The save affordance is enabled: the button is not disabled and a click on it saves.\<close>

definition save_enabled :: "app \<Rightarrow> bool" where
  "save_enabled s = (\<not> disabled s saveButton \<and> H_save \<in> set (listeners s (saveButton, click)))"

text \<open>
  The Disconnected state of the page: the connect buttons are visible, the save and
  disconnect affordances are hidden, the close button is disabled.
\<close>

definition Disconnected :: "app \<Rightarrow> bool" where
  "Disconnected s =
     (\<not> hidden s metamaskButton \<and> \<not> hidden s walletConnectButton \<and>
      hidden s saveButton \<and> hidden s disconnectButton \<and> disabled s closeButton)"

text \<open>
  The Connected state: the connect buttons are hidden, the save and disconnect
  affordances are visible, the close button is enabled.
\<close>

definition Connected :: "app \<Rightarrow> bool" where
  "Connected s =
     (hidden s metamaskButton \<and> hidden s walletConnectButton \<and>
      \<not> hidden s saveButton \<and> \<not> hidden s disconnectButton \<and> \<not> disabled s closeButton)"

text \<open>The alerts shown and the network requests issued so far, in their order.\<close>

fun alert_of :: "effect \<Rightarrow> jsstring option" where
  "alert_of (E_alert m) = Some m"
| "alert_of _ = None"

fun request_of :: "effect \<Rightarrow> request option" where
  "request_of (E_fetch r) = Some r"
| "request_of _ = None"

definition alerts :: "app \<Rightarrow> jsstring list" where
  "alerts s = List.map_filter alert_of (effects s)"

definition requests :: "app \<Rightarrow> request list" where
  "requests s = List.map_filter request_of (effects s)"









subsection \<open>A page and some sessions on it\<close>

text \<open>
  An address in EIP-55 form (the first example of EIP-55) and a nonce of sixteen
  alphanumerics, and the challenge for them on the example page.
\<close>

definition example_address :: jsstring where
  "example_address = js ''0x5aAeb6053F3E94C9b9A09f33669435E7Ef1BeAed''"

definition example_nonce :: jsstring where
  "example_nonce = js ''abcdefgh12345678''"

definition example_challenge :: SiweMessage where
  "example_challenge =
     \<lparr>domain = js ''notepad.example'', address = example_address, chainId = 1,
      uri = js ''https://notepad.example'', version = js ''1'',
      statement = js ''SIWE Notepad Example'', nonce = example_nonce\<rparr>"

text \<open>
  On the example page the constructor of the siwe library returns the example challenge
  as it is, at every call (the library accepts these fields and keeps them), and is taken
  to throw for every other message.
\<close>

definition example_SiweMessage_new :: "nat \<Rightarrow> SiweMessage \<Rightarrow> error + SiweMessage" where
  "example_SiweMessage_new k params =
     (if params = example_challenge then Inr params else Inl SiweError)"

text \<open>
  A page without an injected provider, as a browser without a wallet extension builds
  it: the save and disconnect affordances hidden, the close button disabled, the title
  \<open>Untitled\<close>, an empty text area.
\<close>

definition example_page :: app where
  "example_page =
     \<lparr>metamask = None, location_host = js ''notepad.example'',
      location_origin = js ''https://notepad.example'', wagmiProvider = None,
      handles_bound = False,
      hidden = (\<lambda>_. False)(saveButton := True, disconnectButton := True),
      disabled = (\<lambda>_. False)(closeButton := True),
      listeners = (\<lambda>_. []), mousetrap_mod_s = [], notepad_value = [],
      notepad_width = js ''460px'', notepad_height = js ''320px'',
      toggleSize_ariaLabel = js ''Maximize'', unsaved_innerText = [],
      title_innerText = Some (js ''Untitled''), onbeforeunload = None,
      SiweMessage_new = example_SiweMessage_new, SiweMessage_calls = 0,
      pending = [], effects = []\<rparr>"

text \<open>The page loads and \<open>/api/me\<close> answers 401: nobody is signed in.\<close>

definition no_session :: "event list" where
  "no_session = [DOMContentLoaded, Settle 0 (R_response 401)]"

text \<open>The page loads and \<open>/api/me\<close> answers 200 with the stored text \<open>hello\<close>.\<close>

definition session_restored :: "event list" where
  "session_restored =
     [DOMContentLoaded, Settle 0 (R_response 200),
      Settle 0 (R_user (User (Some (js ''hello'')) example_address None))]"



text \<open>The user edits and saves; the save is pending at the end of \<open>save_sent\<close>.\<close>

definition save_sent :: "event list" where
  "save_sent = session_restored @ [Input (js ''hello!''), Click saveButton]"

text \<open>
  The wallet reports a signer, and the sign-in runs up to the request to \<open>/api/sign_in\<close>:
  one account (the example address), no ENS name, the example nonce, chain 1, a
  signature.
\<close>

definition sign_in_sent :: "event list" where
  "sign_in_sent =
     no_session @
     [SignerChange (Some (Signer (Some (SignerProvider 0)))),
      Settle 0 (R_accounts [example_address]), Settle 0 (R_name None),
      Settle 0 (R_response 200), Settle 0 (R_text example_nonce),
      Settle 0 (R_network 1), Settle 0 (R_signature (js ''0xSIG''))]"

text \<open>The server verifies the signature and answers with an empty ENS name.\<close>

definition sign_in_verified :: "event list" where
  "sign_in_verified =
     [Settle 0 (R_response 200),
      Settle 0 (R_user (User (Some (js ''hello'')) example_address (Some [])))]"

text \<open>The user disconnects while the network is down: the request is rejected.\<close>

definition sign_out_offline :: "event list" where
  "sign_out_offline = session_restored @ [Click disconnectButton, Settle 0 Rejected]"

section \<open>Properties\<close>

subsection \<open>What each function does to the state\<close>

lemma typeof_never_undefined: "strict_equals (typeof m) JS_undefined = False"
  by (simp add: strict_equals_def typeof_def)

lemma updateTitle_flat:
  "updateTitle t s = s\<lparr>title_innerText := map_option (\<lambda>_. t) (title_innerText s)\<rparr>"
  by (cases "title_innerText s") (simp_all add: updateTitle_def)

lemma blockSave_flat:
  "handles_bound s \<Longrightarrow>
   blockSave s =
     s\<lparr>disabled := (disabled s)(saveButton := True),
       listeners := (listeners s)((saveButton, click) := removeAll H_save (listeners s (saveButton, click))),
       unsaved_innerText := [], onbeforeunload := None\<rparr>"
  by (simp add: blockSave_def removeEventListener_def setAttribute_disabled_def updateUnsavedChanges_def)

lemma enableSave_flat:
  "handles_bound s \<Longrightarrow>
   enableSave s =
     s\<lparr>disabled := (disabled s)(saveButton := False),
       listeners := (listeners s)((saveButton, click) := add_listener H_save (listeners s (saveButton, click))),
       unsaved_innerText := js ''- (***Unsaved Changes***)'',
       onbeforeunload := Some (js ''(***Unsaved Changes***)'')\<rparr>"
  by (simp add: enableSave_def addEventListener_def removeAttribute_disabled_def updateUnsavedChanges_def)

lemma disconnectedState_flat:
  "handles_bound s \<Longrightarrow>
   disconnectedState s =
     s\<lparr>hidden := (hidden s)(metamaskButton := False, walletConnectButton := False,
                            saveButton := True, disconnectButton := True),
       disabled := (disabled s)(closeButton := True),
       listeners := (listeners s)((closeButton, click) := removeAll H_signOut (listeners s (closeButton, click)))\<rparr>"
  by (simp add: disconnectedState_def typeof_never_undefined classList_remove_hidden_def
      classList_add_hidden_def removeEventListener_def setAttribute_disabled_def)

lemma connectedState_flat:
  "handles_bound s \<Longrightarrow>
   connectedState tx addr ens s =
     s\<lparr>hidden := (hidden s)(metamaskButton := True, walletConnectButton := True,
                            saveButton := False, disconnectButton := False),
       disabled := (disabled s)(closeButton := False, saveButton := True),
       listeners := (listeners s)
         ((closeButton, click) := add_listener H_signOut (listeners s (closeButton, click)),
          (saveButton, click) := removeAll H_save (listeners s (saveButton, click))),
       notepad_value := (case tx of None \<Rightarrow> notepad_value s
                         | Some t \<Rightarrow> if t \<noteq> [] then normalize_newlines t else notepad_value s),
       unsaved_innerText := [],
       title_innerText := map_option (\<lambda>_. nullish_coalesce ens addr) (title_innerText s),
       onbeforeunload := None\<rparr>"
  by (cases tx)
     (simp_all add: connectedState_def blockSave_flat updateTitle_flat classList_remove_hidden_def
      classList_add_hidden_def addEventListener_def removeAttribute_disabled_def updateNotepad_def)

lemma save_flat:
  "handles_bound s \<Longrightarrow>
   save s =
     (if 43610 < Buffer_byteLength (JSON_stringify_text (notepad_value s))
      then s\<lparr>effects := effects s @ [E_preventDefault, E_alert (js ''Your message is too big.'')]\<rparr>
      else s\<lparr>pending := pending s @ [T_save_fetch],
             effects := effects s @ [E_preventDefault, E_fetch (save_request (notepad_value s))]\<rparr>)"
  by (simp add: save_def emit_def fetch_def await_def Let_def)

lemma save_unbound:
  "\<not> handles_bound s \<Longrightarrow>
   save s = s\<lparr>effects := effects s @ [E_preventDefault, E_uncaught TypeError]\<rparr>"
  by (simp add: save_def emit_def throw_def Let_def)

lemma signOut_flat:
  "handles_bound s \<Longrightarrow>
   signOut s =
     s\<lparr>notepad_value := [],
       title_innerText := map_option (\<lambda>_. js ''Untitled'') (title_innerText s),
       pending := pending s @ [T_sign_out_fetch],
       effects := effects s @ [E_fetch sign_out_request]\<rparr>"
  by (simp add: signOut_def updateTitle_flat updateNotepad_def emit_def fetch_def await_def Let_def)

lemma maximize_flat:
  "handles_bound s \<Longrightarrow>
   maximize s =
     s\<lparr>listeners := (listeners s)
         ((toggleSize, click) := add_listener H_restore (removeAll H_maximize (listeners s (toggleSize, click)))),
       notepad_width := js ''99.7vw'', notepad_height := js ''91.7vh'',
       toggleSize_ariaLabel := js ''Restore''\<rparr>"
  by (simp add: maximize_def removeEventListener_def addEventListener_def)

lemma restore_flat:
  "handles_bound s \<Longrightarrow>
   restore s =
     s\<lparr>listeners := (listeners s)
         ((toggleSize, click) := add_listener H_maximize (removeAll H_restore (listeners s (toggleSize, click)))),
       notepad_width := js ''460px'', notepad_height := js ''320px'',
       toggleSize_ariaLabel := js ''Maximize''\<rparr>"
  by (simp add: restore_def removeEventListener_def addEventListener_def)

lemma on_DOMContentLoaded_flat:
  "on_DOMContentLoaded s =
     s\<lparr>handles_bound := True,
       listeners := (listeners s)
         ((toggleSize, click) := add_listener H_maximize (listeners s (toggleSize, click)),
          (disconnectButton, click) := add_listener H_signOut (listeners s (disconnectButton, click)),
          (metamaskButton, click) := add_listener (H_connect METAMASK) (listeners s (metamaskButton, click)),
          (walletConnectButton, click) :=
             add_listener (H_connect WALLET_CONNECT) (listeners s (walletConnectButton, click)),
          (saveButton, click) := add_listener H_save (listeners s (saveButton, click)),
          (notepad_elem, input) := add_listener H_enableSave (listeners s (notepad_elem, input))),
       pending := pending s @ [T_me_fetch],
       effects := effects s @ [E_fetch me_request]\<rparr>"
  by (simp add: on_DOMContentLoaded_def typeof_never_undefined addEventListener_def emit_def
      fetch_def await_def Let_def)

lemma signIn_flat:
  "signIn p s = s\<lparr>pending := pending s @ [T_listAccounts p], effects := effects s @ [E_listAccounts p]\<rparr>"
  by (simp add: signIn_def emit_def await_def)

lemma signIn_accounts_flat:
  "addr \<noteq> [] \<Longrightarrow>
   signIn_accounts p (addr # others) s =
     s\<lparr>pending := pending s @ [T_lookupAddress p addr],
       effects := effects s @ [E_lookupAddress p addr]\<rparr>"
  by (simp add: signIn_accounts_def emit_def await_def)

lemma signIn_ens_flat:
  "signIn_ens p addr ens s =
     s\<lparr>title_innerText := map_option (\<lambda>_. ens) (title_innerText s),
       pending := pending s @ [T_nonce_fetch p addr ens],
       effects := effects s @ [E_fetch nonce_request]\<rparr>"
  by (simp add: signIn_ens_def updateTitle_flat nullish_coalesce_def emit_def fetch_def await_def)

lemma watchSigner_none:
  "watchSigner_callback None s = s\<lparr>wagmiProvider := None, effects := effects s @ [E_console_log]\<rparr>"
  "watchSigner_callback (Some (Signer None)) s =
     s\<lparr>wagmiProvider := None, effects := effects s @ [E_console_log]\<rparr>"
  by (simp_all add: watchSigner_callback_def emit_def)

lemma watchSigner_some:
  "watchSigner_callback (Some (Signer (Some p))) s =
     s\<lparr>wagmiProvider := Some p, pending := pending s @ [T_listAccounts p],
       effects := effects s @ [E_console_log, E_listAccounts p]\<rparr>"
  by (simp add: watchSigner_callback_def signIn_flat emit_def)


lemmas flat =
  blockSave_flat enableSave_flat disconnectedState_flat connectedState_flat save_flat signOut_flat
  maximize_flat restore_flat on_DOMContentLoaded_flat signIn_flat signIn_ens_flat
  watchSigner_none watchSigner_some

subsection \<open>Settling a promise\<close>

lemma continue_simps:
  "continue T_me_fetch (R_response st) s =
     Some (if st = 200 then await T_me_json s else disconnectedState s)"
  "continue T_me_json (R_user (User tx addr oe)) s = Some (connectedState tx addr oe s)"
  "continue (T_listAccounts p) (R_accounts accounts) s = Some (signIn_accounts p accounts s)"
  "continue (T_lookupAddress p addr) (R_name nm) s = Some (signIn_ens p addr (nullish_coalesce nm []) s)"
  "continue (T_lookupAddress p addr) Rejected s = Some (signIn_ens p addr [] (emit E_console_error s))"
  "continue (T_nonce_fetch p addr ens) (R_response st) s = Some (await (T_nonce_text p addr ens) s)"
  "continue (T_nonce_text p addr ens) (R_text n) s =
     Some (await (T_getNetwork p addr ens n (location_host s)) (emit (E_getNetwork p) s))"
  "continue (T_getNetwork p addr ens n host) (R_network cid) s =
     (case SiweMessage_new s (SiweMessage_calls s)
             \<lparr>domain = host, address = addr, chainId = cid, uri = location_origin s,
              version = js ''1'', statement = js ''SIWE Notepad Example'', nonce = n\<rparr> of
        Inl err \<Rightarrow> Some (throw err (s\<lparr>SiweMessage_calls := Suc (SiweMessage_calls s)\<rparr>))
      | Inr message \<Rightarrow>
          Some (await (T_signMessage message ens)
                 (emit (E_signMessage p (prepareMessage message))
                   (s\<lparr>SiweMessage_calls := Suc (SiweMessage_calls s)\<rparr>))))"
  "continue (T_signMessage message ens) (R_signature sg) s =
     Some (fetch (sign_in_request message ens sg) T_sign_in_fetch s)"
  "continue T_sign_in_fetch (R_response st) s =
     Some (if st = 200 then await T_sign_in_json_ok s else await T_sign_in_json_err s)"
  "continue T_sign_in_json_ok (R_user (User tx addr oe)) s = Some (connectedState tx addr oe s)"
  "continue T_sign_in_json_err (R_error_body e) s = Some (emit E_console_error s)"
  "continue T_sign_out_fetch (R_response st) s = Some (disconnectedState s)"
  "continue T_sign_out_fetch Rejected s = Some (throw Rejection s)"
  "continue T_save_fetch (R_response st) s = Some (blockSave s)"
  "continue T_save_fetch Rejected s = Some (throw Rejection s)"
  by (simp_all add: continue_def Let_def)


subsection \<open>The example page\<close>

lemma example_page_fields:
  "metamask example_page = None"
  "location_host example_page = js ''notepad.example''"
  "location_origin example_page = js ''https://notepad.example''"
  "hidden example_page = (\<lambda>_. False)(saveButton := True, disconnectButton := True)"
  "disabled example_page = (\<lambda>_. False)(closeButton := True)"
  "notepad_value example_page = []"
  "notepad_width example_page = js ''460px''"
  "notepad_height example_page = js ''320px''"
  "toggleSize_ariaLabel example_page = js ''Maximize''"
  "unsaved_innerText example_page = []"
  "title_innerText example_page = Some (js ''Untitled'')"
  "SiweMessage_new example_page = example_SiweMessage_new"
  by (simp_all add: example_page_def)

lemma example_challenge_accepted:
  "example_SiweMessage_new k
     \<lparr>domain = js ''notepad.example'', address = example_address, chainId = Suc 0,
      uri = js ''https://notepad.example'', version = js ''1'',
      statement = js ''SIWE Notepad Example'', nonce = example_nonce\<rparr> = Inr example_challenge"
  by (simp add: example_SiweMessage_new_def example_challenge_def)

lemma example_address_nonempty: "example_address \<noteq> []"
  by (simp add: example_address_def js_def)

lemma normalize_newlines_plain: "0x0D \<notin> set t \<Longrightarrow> normalize_newlines t = t"
  by (induction t) auto

lemma normalize_newlines_idem: "normalize_newlines (normalize_newlines t) = normalize_newlines t"
  by (induction t rule: normalize_newlines.induct) (auto split: list.splits)

lemma normalize_newlines_hello:
  "normalize_newlines (js ''hello'') = js ''hello''"
  "normalize_newlines (js ''hello!'') = js ''hello!''"
  "normalize_newlines (js ''hello!!'') = js ''hello!!''"
  by (rule normalize_newlines_plain, simp add: js_def)+

lemma js_nonempty: "js (c # cs) \<noteq> []"
  by (simp add: js_def)

lemma byteLength_hello:
  "Buffer_byteLength (JSON_stringify_text []) = 11"
  "Buffer_byteLength (JSON_stringify_text (js ''hello!'')) = 17"
  "Buffer_byteLength (JSON_stringify_text (js ''hello!!'')) = 18"
  by (simp_all add: JSON_stringify_text_def QuoteJSONString_def js_def
      is_leading_surrogate_def is_trailing_surrogate_def)

lemmas exec =
  run_def module_load_def flat continue_simps await_def emit_def throw_def fetch_def dispatch_def
  add_listener_def is_button_def example_page_fields nullish_coalesce_def byteLength_hello js_nonempty
  example_challenge_accepted example_address_nonempty normalize_newlines_hello

subsection \<open>The wiring of every reachable state\<close>

























subsection \<open>Where the challenges of every reachable state come from\<close>
































subsection \<open>Events in a reachable state\<close>




lemma map_filter_append:
  "List.map_filter f (xs @ ys) = List.map_filter f xs @ List.map_filter f ys"
  by (simp add: List.map_filter_def)

lemmas observed = alerts_def requests_def map_filter_append List.map_filter_simps

subsection \<open>Saving\<close>

text \<open>
  C1. For every text in the text area, \<open>save\<close> shows the alert, issues no request and
  leaves nothing pending exactly when the JSON serialization of \<open>{text}\<close> is longer than
  43610 bytes; it issues one request and no alert exactly when it is not, and the request
  is a PUT to \<open>/api/save\<close> whose body is that serialization.
\<close>

theorem save_rejected_iff_too_big:
  assumes "handles_bound s"
  shows
    "((alerts (save s) = alerts s @ [js ''Your message is too big.''] \<and>
       requests (save s) = requests s \<and> pending (save s) = pending s)
      = (43610 < Buffer_byteLength (JSON_stringify_text (notepad_value s)))) \<and>
     ((requests (save s) = requests s @ [save_request (notepad_value s)] \<and>
       alerts (save s) = alerts s \<and> pending (save s) = pending s @ [T_save_fetch])
      = (Buffer_byteLength (JSON_stringify_text (notepad_value s)) \<le> 43610)) \<and>
     url (save_request (notepad_value s)) = js ''/api/save'' \<and>
     verb_of (save_request (notepad_value s)) = PUT \<and>
     body_of (save_request (notepad_value s)) = Some (Body_text (JSON_stringify_text (notepad_value s)))"
  using assms
  by (simp add: save_flat observed save_request_def)

theorem save_rejected_iff_too_big_witness:
  "handles_bound (run (module_load example_page) (session_restored @ [Input (js ''hello!'')])) \<and>
   requests (save (run (module_load example_page) (session_restored @ [Input (js ''hello!'')]))) =
     [me_request, save_request (js ''hello!'')] \<and>
   alerts (save (run (module_load example_page) (session_restored @ [Input (js ''hello!'')]))) = []"
  using save_rejected_iff_too_big [of "run (module_load example_page) (session_restored @ [Input (js ''hello!'')])"]
  by (simp add: session_restored_def exec observed)



lemma hotkey_before_page_load:
  "effects (step (module_load page) Hotkey) = [E_preventDefault, E_uncaught TypeError]"
  by (simp add: module_load_def save_unbound)

subsection \<open>The bound in characters\<close>

text \<open>
  For a text of printable ASCII characters without quotes and backslashes the
  serialization is the text and the eleven bytes around it: such a text is saved up to
  43599 characters and refused from 43600 on.
\<close>

lemma quote_chars_plain:
  "\<forall>c \<in> set D. 0x20 \<le> c \<and> c < 0x80 \<and> c \<noteq> 0x22 \<and> c \<noteq> 0x5C \<Longrightarrow> quote_chars D = D"
proof (induction D)
  case Nil
  then show ?case by simp
next
  case (Cons c D)
  then have c: "0x20 \<le> c" "c < 0x80" "c \<noteq> 0x22" "c \<noteq> 0x5C"
    by simp_all
  from c(1) have "c \<noteq> 0x08" "c \<noteq> 0x09" "c \<noteq> 0x0A" "c \<noteq> 0x0C" "c \<noteq> 0x0D" "\<not> c < 0x20"
    by auto
  moreover from c(2) have "\<not> is_leading_surrogate c" "\<not> is_trailing_surrogate c"
    by (auto simp: is_leading_surrogate_def is_trailing_surrogate_def word_less_nat_alt word_le_nat_alt)
  ultimately show ?case
    using Cons c by simp
qed

lemma byteLength_ascii: "\<forall>c \<in> set D. c < 0x80 \<Longrightarrow> Buffer_byteLength D = length D"
  by (induction D) simp_all

lemma byteLength_plain:
  assumes "\<forall>c \<in> set D. 0x20 \<le> c \<and> c < 0x80 \<and> c \<noteq> 0x22 \<and> c \<noteq> 0x5C"
  shows "Buffer_byteLength (JSON_stringify_text D) = length D + 11"
proof -
  have "JSON_stringify_text D =
      [0x7B, 0x22, 0x74, 0x65, 0x78, 0x74, 0x22, 0x3A, 0x22] @ D @ [0x22, 0x7D]"
    using assms
    by (simp add: JSON_stringify_text_def QuoteJSONString_def js_def quote_chars_plain
        is_leading_surrogate_def is_trailing_surrogate_def)
  moreover have "\<forall>c \<in> set ([0x7B, 0x22, 0x74, 0x65, 0x78, 0x74, 0x22, 0x3A, 0x22] @ D @ [0x22, 0x7D]). c < (0x80 :: 16 word)"
    using assms by auto
  ultimately show ?thesis
    by (simp only: byteLength_ascii) simp
qed

lemma save_plain_text_bound:
  assumes "handles_bound s"
    and "\<forall>c \<in> set (notepad_value s). 0x20 \<le> c \<and> c < 0x80 \<and> c \<noteq> 0x22 \<and> c \<noteq> 0x5C"
  shows "(alerts (save s) = alerts s @ [js ''Your message is too big.''] \<and> requests (save s) = requests s)
           = (43599 < length (notepad_value s))"
    and "(requests (save s) = requests s @ [save_request (notepad_value s)] \<and> alerts (save s) = alerts s)
           = (length (notepad_value s) \<le> 43599)"
  using assms by (auto simp: save_flat byteLength_plain observed)

subsection \<open>Signing out\<close>

text \<open>
  C8. Two calls of \<open>signOut\<close>, each answered by the server (with any status), end in the
  same state: the page of the second end state is that of the first, which is
  Disconnected with the title \<open>Untitled\<close> and an empty text area; the second call adds
  its request to the trace and nothing else, so no error. The same end state is reached
  when the second call is made before the first is answered.
\<close>

theorem signOut_twice_same_end_state:
  assumes "handles_bound s" and "title_innerText s \<noteq> None"
  shows
    "Disconnected (step (signOut s) (Settle (length (pending s)) (R_response st))) \<and>
     title_innerText (step (signOut s) (Settle (length (pending s)) (R_response st))) = Some (js ''Untitled'') \<and>
     notepad_value (step (signOut s) (Settle (length (pending s)) (R_response st))) = [] \<and>
     pending (step (signOut s) (Settle (length (pending s)) (R_response st))) = pending s \<and>
     effects (step (signOut s) (Settle (length (pending s)) (R_response st))) =
       effects s @ [E_fetch sign_out_request] \<and>
     step (signOut (step (signOut s) (Settle (length (pending s)) (R_response st))))
          (Settle (length (pending s)) (R_response st')) =
       (step (signOut s) (Settle (length (pending s)) (R_response st)))
         \<lparr>effects := effects s @ [E_fetch sign_out_request, E_fetch sign_out_request]\<rparr> \<and>
     step (step (signOut (signOut s)) (Settle (length (pending s)) (R_response st)))
          (Settle (length (pending s)) (R_response st')) =
       (step (signOut s) (Settle (length (pending s)) (R_response st)))
         \<lparr>effects := effects s @ [E_fetch sign_out_request, E_fetch sign_out_request]\<rparr>"
proof -
  obtain t0 where t0: "title_innerText s = Some t0"
    using assms(2) by auto
  define s1 where "s1 = step (signOut s) (Settle (length (pending s)) (R_response st))"
  have s1: "s1 =
      s\<lparr>hidden := (hidden s)(metamaskButton := False, walletConnectButton := False,
                             saveButton := True, disconnectButton := True),
        disabled := (disabled s)(closeButton := True),
        listeners := (listeners s)((closeButton, click) := removeAll H_signOut (listeners s (closeButton, click))),
        notepad_value := [], title_innerText := Some (js ''Untitled''),
        effects := effects s @ [E_fetch sign_out_request]\<rparr>"
    using assms(1) t0
    by (simp add: s1_def signOut_flat continue_simps disconnectedState_flat)
  have b1: "handles_bound s1" and p1: "pending s1 = pending s"
    using assms(1) by (simp_all add: s1)
  have s2: "step (signOut s1) (Settle (length (pending s)) (R_response st')) =
      s1\<lparr>effects := effects s @ [E_fetch sign_out_request, E_fetch sign_out_request]\<rparr>"
    using b1 p1
    by (simp add: signOut_flat continue_simps disconnectedState_flat) (simp add: s1)
  have both: "step (step (signOut (signOut s)) (Settle (length (pending s)) (R_response st)))
          (Settle (length (pending s)) (R_response st')) =
      s1\<lparr>effects := effects s @ [E_fetch sign_out_request, E_fetch sign_out_request]\<rparr>"
    using assms(1) t0
    by (simp add: signOut_flat continue_simps disconnectedState_flat nth_append s1)
  have "Disconnected s1" "title_innerText s1 = Some (js ''Untitled'')" "notepad_value s1 = []"
    "effects s1 = effects s @ [E_fetch sign_out_request]"
    by (simp_all add: s1 Disconnected_def)
  then show ?thesis
    using p1 s2 both unfolding s1_def by simp
qed

theorem signOut_twice_same_end_state_witness:
  "handles_bound (run (module_load example_page) session_restored) \<and>
   title_innerText (run (module_load example_page) session_restored) \<noteq> None \<and>
   Disconnected (step (signOut (run (module_load example_page) session_restored)) (Settle 0 (R_response 200))) \<and>
   step (signOut (step (signOut (run (module_load example_page) session_restored)) (Settle 0 (R_response 200))))
        (Settle 0 (R_response 200)) =
     (step (signOut (run (module_load example_page) session_restored)) (Settle 0 (R_response 200)))
       \<lparr>effects := [E_fetch me_request, E_fetch sign_out_request, E_fetch sign_out_request]\<rparr>"
proof -
  have p: "pending (run (module_load example_page) session_restored) = []"
    and e: "effects (run (module_load example_page) session_restored) = [E_fetch me_request]"
    and b: "handles_bound (run (module_load example_page) session_restored)"
    and t: "title_innerText (run (module_load example_page) session_restored) \<noteq> None"
    by (simp_all add: session_restored_def exec)
  show ?thesis
    using signOut_twice_same_end_state [OF b t, of 200 200] b t by (simp add: p e)
qed

subsection \<open>Signing in\<close>



subsection \<open>Edits while a save is pending\<close>




text \<open>
  C3. A save that the server refuses clears the dirty state like a save that succeeded:
  the handler of the response does not look at the status. (A save whose request fails
  in transport leaves the document dirty: the handler does not run.) The specification
  is right that a refused save must not look saved; \<open>/api/me\<close> and \<open>/api/sign_in\<close> do
  test the status of their responses.
\<close>

theorem refused_save_clears_dirty:
  "dirty (run (module_load example_page) save_sent) \<and>
   save_enabled (run (module_load example_page) save_sent) \<and>
   \<not> dirty (run (module_load example_page) (save_sent @ [Settle 0 (R_response 500)])) \<and>
   \<not> save_enabled (run (module_load example_page) (save_sent @ [Settle 0 (R_response 500)])) \<and>
   dirty (run (module_load example_page) (save_sent @ [Settle 0 Rejected])) \<and>
   save_enabled (run (module_load example_page) (save_sent @ [Settle 0 Rejected]))"
  by (simp add: save_sent_def session_restored_def exec dirty_def save_enabled_def)

subsection \<open>The signer goes away\<close>




subsection \<open>The title without an ENS name\<close>

text \<open>
  C5. The scenario of the specification: the wallet has one address and no ENS
  name, the server answers the sign-in with the text \<open>hello\<close> and the ENS name \<open>""\<close>. The
  title is empty after the lookup and empty at the end, not the address: \<open>ens ?? address\<close>
  falls back only on \<open>null\<close> and \<open>undefined\<close>, and \<open>ens\<close> is the empty string.
\<close>

theorem title_empty_without_ens:
  "title_innerText (run (module_load example_page) sign_in_sent) = Some [] \<and>
   title_innerText (run (module_load example_page) (sign_in_sent @ sign_in_verified)) = Some [] \<and>
   notepad_value (run (module_load example_page) (sign_in_sent @ sign_in_verified)) = js ''hello'' \<and>
   disabled (run (module_load example_page) (sign_in_sent @ sign_in_verified)) saveButton"
  by (simp add: sign_in_sent_def sign_in_verified_def no_session_def exec signIn_accounts_flat)

subsection \<open>The button of the injected provider\<close>

text \<open>
  C6. On the example page there is no injected provider, and the button of the injected
  provider is visible after the page has loaded and after \<open>/api/me\<close> has answered 401:
  \<open>typeof metamask === undefined\<close> compares a string with \<open>undefined\<close> and never holds.
\<close>

theorem metamask_button_not_hidden:
  "metamask (module_load example_page) = None \<and>
   \<not> hidden (run (module_load example_page) [DOMContentLoaded]) metamaskButton \<and>
   \<not> hidden (run (module_load example_page) no_session) metamaskButton"
  by (simp add: no_session_def exec)

lemma metamask_button_unchanged_by_load:
  "hidden (step (module_load page) DOMContentLoaded) metamaskButton = hidden page metamaskButton"
  by (simp add: module_load_def on_DOMContentLoaded_flat)

subsection \<open>Signing out without a network\<close>

text \<open>
  C7, as the specification states it, fails: the session is connected, the user
  disconnects, and the request to \<open>/api/sign_out\<close> fails in transport. The title and the
  text area are cleared, the page stays in the Connected state.
\<close>

theorem sign_out_offline_counterexample:
  "Connected (run (module_load example_page) sign_out_offline) \<and>
   \<not> Disconnected (run (module_load example_page) sign_out_offline) \<and>
   title_innerText (run (module_load example_page) sign_out_offline) = Some (js ''Untitled'') \<and>
   notepad_value (run (module_load example_page) sign_out_offline) = []"
  by (simp add: sign_out_offline_def session_restored_def exec Connected_def Disconnected_def)

text \<open>
  C7, amended. With the page loaded, every call of \<open>signOut\<close> sets the title to
  \<open>Untitled\<close>, empties the text area and sends the request at once; the page goes to the
  Disconnected state when the response arrives, whatever its status; when the request
  fails in transport the rejection is not handled and the buttons, their attributes and
  their listeners stay as they were before the call.
\<close>

theorem signOut_disconnects_on_response:
  assumes "handles_bound s"
  shows
    "signOut s =
       s\<lparr>notepad_value := [],
         title_innerText := map_option (\<lambda>_. js ''Untitled'') (title_innerText s),
         pending := pending s @ [T_sign_out_fetch],
         effects := effects s @ [E_fetch sign_out_request]\<rparr> \<and>
     Disconnected (step (signOut s) (Settle (length (pending s)) (R_response st))) \<and>
     step (signOut s) (Settle (length (pending s)) Rejected) =
       s\<lparr>notepad_value := [],
         title_innerText := map_option (\<lambda>_. js ''Untitled'') (title_innerText s),
         effects := effects s @ [E_fetch sign_out_request, E_uncaught Rejection]\<rparr>"
  using assms
  by (simp add: signOut_flat continue_simps disconnectedState_flat Disconnected_def throw_def emit_def)

theorem signOut_disconnects_on_response_witness:
  "handles_bound (run (module_load example_page) session_restored) \<and>
   Disconnected (step (signOut (run (module_load example_page) session_restored))
                      (Settle 0 (R_response 200))) \<and>
   hidden (step (signOut (run (module_load example_page) session_restored)) (Settle 0 Rejected)) =
     hidden (run (module_load example_page) session_restored)"
proof -
  have p: "pending (run (module_load example_page) session_restored) = []"
    and b: "handles_bound (run (module_load example_page) session_restored)"
    by (simp_all add: session_restored_def exec)
  have l: "length (pending (run (module_load example_page) session_restored)) = 0"
    by (simp add: p)
  note th = signOut_disconnects_on_response [OF b, of 200, unfolded l]
  have d: "Disconnected (step (signOut (run (module_load example_page) session_restored))
                      (Settle 0 (R_response 200)))"
    by (rule th [THEN conjunct2, THEN conjunct1])
  have r: "hidden (step (signOut (run (module_load example_page) session_restored)) (Settle 0 Rejected)) =
     hidden (run (module_load example_page) session_restored)"
    by (subst th [THEN conjunct2, THEN conjunct2]) simp
  show ?thesis
    using b d r by (intro conjI)
qed

end
